theory Spec2Isabelle
  imports Main "HOL-Library.Sublist"
begin

section \<open>Python values used by monitor\_domains.py\<close>

subsection \<open>Text\<close>

text \<open>
  A Python \<open>str\<close> is the list of its code points. \<open>u\<close> gives the \<open>str\<close> of an ASCII
  literal, \<open>ch\<close> the code point of an ASCII character. The Chinese literals and the
  emoji of the source are written as their code points.
\<close>

type_synonym str = "int list"

definition ch :: "char \<Rightarrow> int" where
  "ch c = of_char c"

definition u :: "string \<Rightarrow> str" where
  "u s = map of_char s"

subsection \<open>Exceptions\<close>

text \<open>
  An exception is its class, as far as some \<open>except\<close> clause of the script tells classes
  apart, and the text \<open>str(e)\<close>. Every class here is a subclass of \<open>Exception\<close>.
  \<open>sys.exit(n)\<close> is kept apart: no handler of the script catches it.
\<close>

datatype exc_class = FileNotFoundError | TimeoutExpired | IndexError | OtherException

datatype exc = Exc exc_class str

fun exc_cls :: "exc \<Rightarrow> exc_class" where
  "exc_cls (Exc c s) = c"

fun exc_str :: "exc \<Rightarrow> str" where
  "exc_str (Exc c s) = s"

datatype abort = Uncaught exc | SystemExit int

subsection \<open>The character database of the interpreter\<close>

text \<open>
  \<open>str.lower()\<close> and the white space that \<open>str.strip()\<close> removes come from the Unicode
  character database built into the interpreter; they are not part of the script and
  they change with the version of Python. The script is modelled for every such
  database: a database is a lowercasing function on \<open>str\<close> (on whole strings: one
  character may become two, and capital sigma depends on its neighbours) and a white
  space predicate on code points, of which three facts of CPython are kept:
  lowercasing twice is lowercasing once; on ASCII text lowercasing maps \<open>A\<close>-\<open>Z\<close> to
  \<open>a\<close>-\<open>z\<close> and changes nothing else; the ASCII white space is 9 to 13 and 28 to 32.
\<close>

definition ascii_lower :: "int \<Rightarrow> int" where
  "ascii_lower c = (if 65 \<le> c \<and> c \<le> 90 then c + 32 else c)"

definition ascii_space :: "int \<Rightarrow> bool" where
  "ascii_space c = ((9 \<le> c \<and> c \<le> 13) \<or> (28 \<le> c \<and> c \<le> 32))"

definition is_ascii :: "str \<Rightarrow> bool" where
  "is_ascii s = (\<forall>c\<in>set s. 0 \<le> c \<and> c < 128)"

typedef unicode_data =
  "{(lo :: str \<Rightarrow> str, sp :: int \<Rightarrow> bool).
      (\<forall>s. lo (lo s) = lo s) \<and>
      (\<forall>s. is_ascii s \<longrightarrow> lo s = map ascii_lower s) \<and>
      (\<forall>c. 0 \<le> c \<and> c < 128 \<longrightarrow> sp c = ascii_space c)}"
proof -
  have "(map ascii_lower, ascii_space) \<in>
      {(lo :: str \<Rightarrow> str, sp :: int \<Rightarrow> bool).
         (\<forall>s. lo (lo s) = lo s) \<and>
         (\<forall>s. is_ascii s \<longrightarrow> lo s = map ascii_lower s) \<and>
         (\<forall>c. 0 \<le> c \<and> c < 128 \<longrightarrow> sp c = ascii_space c)}"
    by (auto simp: ascii_lower_def)
  then show ?thesis by blast
qed

setup_lifting type_definition_unicode_data

text \<open>\<open>s.lower()\<close>.\<close>

lift_definition str_lower :: "unicode_data \<Rightarrow> str \<Rightarrow> str" is "\<lambda>(lo, sp). lo" .

text \<open>The white space of \<open>s.strip()\<close>, which is that of \<open>str.isspace()\<close>.\<close>

lift_definition isspace :: "unicode_data \<Rightarrow> int \<Rightarrow> bool" is "\<lambda>(lo, sp). sp" .

text \<open>
  A database to run the script on: its lowercasing is that of CPython on text made of
  ASCII, Latin-1 and Cyrillic (U+0400 to U+045F) characters, character by character,
  and its white space is the white space of CPython 3.11.
\<close>

definition sample_lower :: "int \<Rightarrow> int" where
  "sample_lower c =
     (if 65 \<le> c \<and> c \<le> 90 then c + 32
      else if 0xC0 \<le> c \<and> c \<le> 0xDE \<and> c \<noteq> 0xD7 then c + 32
      else if 0x410 \<le> c \<and> c \<le> 0x42F then c + 32
      else if 0x400 \<le> c \<and> c \<le> 0x40F then c + 80
      else c)"

definition sample_space :: "int \<Rightarrow> bool" where
  "sample_space c =
     (ascii_space c \<or> c = 0x85 \<or> c = 0xA0 \<or> c = 0x1680 \<or> (0x2000 \<le> c \<and> c \<le> 0x200A) \<or>
      c = 0x2028 \<or> c = 0x2029 \<or> c = 0x202F \<or> c = 0x205F \<or> c = 0x3000)"

lift_definition sample_unicode :: unicode_data is "(map sample_lower, sample_space)"
proof -
  have i: "sample_lower (sample_lower c) = sample_lower c" for c
    by (simp add: sample_lower_def)
  have a: "0 \<le> c \<and> c < 128 \<Longrightarrow> sample_lower c = ascii_lower c" for c
    by (simp add: sample_lower_def ascii_lower_def)
  have s: "0 \<le> c \<and> c < 128 \<Longrightarrow> sample_space c = ascii_space c" for c
    by (simp add: sample_space_def)
  show "(map sample_lower, sample_space) \<in>
      {(lo :: str \<Rightarrow> str, sp :: int \<Rightarrow> bool).
         (\<forall>s. lo (lo s) = lo s) \<and>
         (\<forall>s. is_ascii s \<longrightarrow> lo s = map ascii_lower s) \<and>
         (\<forall>c. 0 \<le> c \<and> c < 128 \<longrightarrow> sp c = ascii_space c)}"
    using i a s by (simp add: is_ascii_def)
qed

subsection \<open>String builtins\<close>

text \<open>\<open>s.strip()\<close>: white space removed at both ends.\<close>

definition str_strip :: "unicode_data \<Rightarrow> str \<Rightarrow> str" where
  "str_strip db s = rev (dropWhile (isspace db) (rev (dropWhile (isspace db) s)))"

text \<open>\<open>s.split(sep)\<close> for a one-character separator: \<open>cur\<close> is the piece being read.\<close>

fun split_from :: "int \<Rightarrow> str \<Rightarrow> str \<Rightarrow> str list" where
  "split_from sep cur [] = [cur]"
| "split_from sep cur (x # xs) =
     (if x = sep then cur # split_from sep [] xs else split_from sep (cur @ [x]) xs)"

definition str_split :: "str \<Rightarrow> int \<Rightarrow> str list" where
  "str_split s sep = split_from sep [] s"

text \<open>\<open>xs[-1]\<close>: the last element, \<open>IndexError\<close> on the empty list.\<close>

definition index_last :: "'a list \<Rightarrow> exc + 'a" where
  "index_last xs =
     (if xs = [] then Inl (Exc IndexError (u ''list index out of range'')) else Inr (last xs))"

text \<open>\<open>d.get(k, default)\<close> on a dictionary given by its literal, as an association list.\<close>

definition dict_get :: "('k \<times> 'v) list \<Rightarrow> 'k \<Rightarrow> 'v \<Rightarrow> 'v" where
  "dict_get d k dflt = (case map_of d k of Some v \<Rightarrow> v | None \<Rightarrow> dflt)"

text \<open>\<open>str(n)\<close> for a length: decimal digits.\<close>

fun str_nat :: "nat \<Rightarrow> str" where
  "str_nat n =
     (if n < 10 then [48 + int n] else str_nat (n div 10) @ [48 + int (n mod 10)])"

declare str_nat.simps [simp del]

section \<open>The world of one run\<close>

text \<open>
  A message as \<open>send_email\<close> builds it: the three headers and the HTML part.
\<close>

record email =
  mail_subject :: str
  mail_from :: str
  mail_to :: str
  mail_body :: str

text \<open>
  What a run does to the outside is a trace of events, in the order they happen: text
  written to the console, a call of \<open>subprocess.run\<close> with its argument vector and its
  timeout, a message that \<open>send_message\<close> accepted, a file opened with mode \<open>w\<close> and
  the text written to it, a file opened with mode \<open>a\<close> and the text appended to it.
  Writing to the console and to the two output files is taken to succeed.
\<close>

datatype event =
    Print str
  | Run "str list" nat
  | Mail_sent email
  | Write_file str str
  | Append_file str str

text \<open>\<open>print(s)\<close> writes \<open>s\<close> and a newline.\<close>

definition println :: "str \<Rightarrow> event" where
  "println s = Print (s @ u ''\<newline>'')"

text \<open>
  What a run reads from the outside. \<open>unicode\<close> is the character database of the
  interpreter. The six module constants of lines 20 to 27 are
  taken as resolved (an unset credential is the empty string). \<open>GITHUB_OUTPUT\<close> is
  \<open>os.getenv("GITHUB_OUTPUT")\<close>. The three \<open>now\<close> fields are the formatted results of
  the three calls of \<open>datetime.now()\<close>, each made at most once in a run. \<open>open_read\<close>
  gives the lines that iterating over the opened file yields, or the exception that
  opening or reading raises. \<open>subprocess_run\<close> gives the standard output of the
  finished process, or the exception raised. The four SMTP fields give the exception
  that the step raises, if any; closing the session is taken to succeed.
\<close>

record env =
  unicode :: unicode_data
  SMTP_SERVER :: str
  SMTP_PORT :: int
  SMTP_USER :: str
  SMTP_PASSWORD :: str
  NOTIFY_EMAIL :: str
  WATCHLIST_FILE :: str
  GITHUB_OUTPUT :: "str option"
  now_start :: str
  now_mail :: str
  now_file :: str
  open_read :: "str \<Rightarrow> exc + str list"
  subprocess_run :: "str list \<Rightarrow> nat \<Rightarrow> exc + str"
  smtp_connect :: "str \<Rightarrow> int \<Rightarrow> exc option"
  smtp_starttls :: "exc option"
  smtp_login :: "str \<Rightarrow> str \<Rightarrow> exc option"
  smtp_send_message :: "email \<Rightarrow> exc option"

section \<open>The literals of the script\<close>

text \<open>Line 81, \<open>domain can be registered\<close>: 5 CJK characters.\<close>

definition MSG_AVAILABLE :: str where
  "MSG_AVAILABLE =
     [0x57DF, 0x540D, 0x53EF, 0x6CE8, 0x518C]"

text \<open>Line 85, \<open>domain is registered\<close>: 5 CJK characters.\<close>

definition MSG_REGISTERED :: str where
  "MSG_REGISTERED =
     [0x57DF, 0x540D, 0x5DF2, 0x6CE8, 0x518C]"

text \<open>Line 87, \<open>status cannot be determined\<close>: 6 CJK characters.\<close>

definition MSG_UNKNOWN :: str where
  "MSG_UNKNOWN =
     [0x65E0, 0x6CD5, 0x786E, 0x5B9A, 0x72B6, 0x6001]"

text \<open>Line 90, \<open>query timed out\<close>: 4 CJK characters.\<close>

definition MSG_TIMEOUT :: str where
  "MSG_TIMEOUT =
     [0x67E5, 0x8BE2, 0x8D85, 0x65F6]"

text \<open>Line 92, \<open>query failed:\<close> and a space; \<open>str(e)\<close> follows.\<close>

definition MSG_ERROR :: str where
  "MSG_ERROR =
     [0x67E5, 0x8BE2, 0x51FA, 0x9519] @ u '': ''"

text \<open>Line 98, \<open>mail configuration incomplete, skipping the mail\<close>, after a warning sign.\<close>

definition WARN_MAIL_CONFIG :: str where
  "WARN_MAIL_CONFIG =
     [0x26A0, 0xFE0F] @ u '' ''
       @ [0x90AE, 0x4EF6, 0x914D, 0x7F6E, 0x4E0D, 0x5B8C, 0x6574, 0xFF0C]
       @ [0x8DF3, 0x8FC7, 0x53D1, 0x9001, 0x90AE, 0x4EF6]"

text \<open>Line 99, \<open>please set the environment variables:\<close> and the three names.\<close>

definition WARN_MAIL_ENV :: str where
  "WARN_MAIL_ENV =
     [0x8BF7, 0x8BBE, 0x7F6E, 0x73AF, 0x5883, 0x53D8, 0x91CF]
       @ u '': SMTP_USER, SMTP_PASSWORD, NOTIFY_EMAIL''"

text \<open>Line 104, the subject before the count: \<open>domain available reminder - found\<close>.\<close>

definition SUBJECT_HEAD :: str where
  "SUBJECT_HEAD =
     [0x1F389] @ u '' '' @ [0x57DF, 0x540D, 0x53EF, 0x6CE8, 0x518C, 0x63D0, 0x9192]
       @ u '' - '' @ [0x53D1, 0x73B0] @ u '' ''"

text \<open>Line 104, the subject after the count: \<open>domains that can be registered!\<close>.\<close>

definition SUBJECT_TAIL :: str where
  "SUBJECT_TAIL =
     u '' '' @ [0x4E2A, 0x53EF, 0x6CE8, 0x518C, 0x57DF, 0x540D, 0xFF01]"

text \<open>Lines 106 to 112, the body up to the opening of the list.\<close>

definition BODY_HEAD :: str where
  "BODY_HEAD =
     u ''\<newline><html>\<newline><body style='' @ [0x0022]
       @ u ''font-family: Arial, sans-serif; padding: 20px;'' @ [0x0022]
       @ u ''>\<newline><h2 style='' @ [0x0022] @ u ''color: #28a745;'' @ [0x0022]
       @ u ''>'' @ [0x1F389] @ u '' ''
       @ [0x53D1, 0x73B0, 0x53EF, 0x6CE8, 0x518C, 0x7684, 0x57DF, 0x540D] @ [0xFF01]
       @ u ''</h2>\<newline><p>''
       @ [0x4EE5, 0x4E0B, 0x57DF, 0x540D, 0x5F53, 0x524D, 0x53EF, 0x4EE5]
       @ [0x6CE8, 0x518C, 0xFF1A] @ u ''</p>\<newline><ul style='' @ [0x0022]
       @ u ''font-size: 18px;'' @ [0x0022] @ u ''>\<newline>''"

text \<open>Line 114, a list item before the domain.\<close>

definition LI_OPEN :: str where
  "LI_OPEN =
     u ''<li style='' @ [0x0022] @ u ''margin: 10px 0;'' @ [0x0022]
       @ u ''><strong>''"

text \<open>Line 114, a list item after the domain.\<close>

definition LI_CLOSE :: str where
  "LI_CLOSE =
     u ''</strong></li>\<newline>''"

text \<open>Lines 116 to 121, the body from the end of the list to the time stamp.\<close>

definition BODY_TAIL :: str where
  "BODY_TAIL =
     u ''\<newline></ul>\<newline><p style='' @ [0x0022] @ u ''color: #666;''
       @ [0x0022] @ u ''>'' @ [0x8BF7, 0x5C3D, 0x5FEB, 0x62A2, 0x6CE8, 0xFF01]
       @ u ''</p>\<newline><hr>\<newline><p style='' @ [0x0022]
       @ u ''font-size: 12px; color: #999;'' @ [0x0022] @ u ''>\<newline>''
       @ [0x68C0, 0x6D4B, 0x65F6, 0x95F4] @ u '': ''"

text \<open>Lines 121 to 126, the body after the time stamp.\<close>

definition BODY_END :: str where
  "BODY_END =
     u ''<br>\<newline>''
       @ [0x6B64, 0x90AE, 0x4EF6, 0x7531, 0x57DF, 0x540D, 0x76D1, 0x63A7]
       @ [0x811A, 0x672C, 0x81EA, 0x52A8, 0x53D1, 0x9001]
       @ u ''\<newline></p>\<newline></body>\<newline></html>\<newline>''"

text \<open>Line 141, \<open>mail sent to\<close> after a check mark.\<close>

definition MAIL_SENT_TO :: str where
  "MAIL_SENT_TO =
     [0x2705] @ u '' '' @ [0x90AE, 0x4EF6, 0x5DF2, 0x53D1, 0x9001, 0x5230] @ u '' ''"

text \<open>Line 145, \<open>sending the mail failed:\<close> after a cross; \<open>str(e)\<close> follows.\<close>

definition MAIL_FAILED :: str where
  "MAIL_FAILED =
     [0x274C] @ u '' '' @ [0x53D1, 0x9001, 0x90AE, 0x4EF6, 0x5931, 0x8D25]
       @ u '': ''"

text \<open>Line 160, \<open>watchlist file not found:\<close> after a cross; the path follows.\<close>

definition NO_WATCHLIST_FILE :: str where
  "NO_WATCHLIST_FILE =
     [0x274C] @ u '' '' @ [0x627E, 0x4E0D, 0x5230, 0x6E05, 0x5355, 0x6587, 0x4EF6]
       @ u '': ''"

text \<open>Line 169, \<open>domain monitoring script\<close>.\<close>

definition TITLE :: str where
  "TITLE =
     [0x57DF, 0x540D, 0x76D1, 0x63A7, 0x811A, 0x672C]"

text \<open>Line 170, \<open>time:\<close>.\<close>

definition TIME_LABEL :: str where
  "TIME_LABEL =
     [0x65F6, 0x95F4] @ u '': ''"

text \<open>Line 177, \<open>the watchlist is empty, no domain to monitor\<close>.\<close>

definition WATCHLIST_EMPTY :: str where
  "WATCHLIST_EMPTY =
     [0x26A0, 0xFE0F] @ u '' ''
       @ [0x6E05, 0x5355, 0x4E3A, 0x7A7A, 0xFF0C, 0x6CA1, 0x6709, 0x9700]
       @ [0x8981, 0x76D1, 0x63A7, 0x7684, 0x57DF, 0x540D]"

text \<open>Line 180, before the count: \<open>monitoring\<close>.\<close>

definition MONITOR_HEAD :: str where
  "MONITOR_HEAD =
     u ''\<newline>'' @ [0x76D1, 0x63A7] @ u '' ''"

text \<open>Line 180, after the count: \<open>domains:\<close>.\<close>

definition MONITOR_TAIL :: str where
  "MONITOR_TAIL =
     u '' '' @ [0x4E2A, 0x57DF, 0x540D] @ u '':''"

text \<open>Line 188, \<open>querying:\<close>.\<close>

definition QUERYING :: str where
  "QUERYING =
     [0x6B63, 0x5728, 0x67E5, 0x8BE2] @ u '': ''"

text \<open>Lines 193 and 204, the check mark and a space.\<close>

definition CHECK_MARK :: str where
  "CHECK_MARK =
     [0x2705] @ u '' ''"

text \<open>Line 196, the cross and a space.\<close>

definition CROSS_MARK :: str where
  "CROSS_MARK =
     [0x274C] @ u '' ''"

text \<open>Line 202, before the count: \<open>found\<close>.\<close>

definition FOUND_HEAD :: str where
  "FOUND_HEAD =
     u ''\<newline>'' @ [0x1F389] @ u '' '' @ [0x53D1, 0x73B0] @ u '' ''"

text \<open>Line 202, after the count: \<open>domains that can be registered!\<close>.\<close>

definition FOUND_TAIL :: str where
  "FOUND_TAIL =
     u '' '' @ [0x4E2A, 0x53EF, 0x6CE8, 0x518C, 0x57DF, 0x540D] @ u ''!''"

text \<open>Line 221, \<open>no domain that can be registered was found\<close>.\<close>

definition NONE_FOUND :: str where
  "NONE_FOUND =
     u ''\<newline>''
       @ [0x6CA1, 0x6709, 0x53D1, 0x73B0, 0x53EF, 0x6CE8, 0x518C, 0x7684]
       @ [0x57DF, 0x540D]"

text \<open>Line 211, the comment that opens the result file: \<open>detection time:\<close>.\<close>

definition FILE_HEADER :: str where
  "FILE_HEADER =
     u ''# '' @ [0x68C0, 0x6D4B, 0x65F6, 0x95F4] @ u '': ''"

section \<open>get\_whois\_server\<close>

definition servers :: "(str \<times> str) list" where
  "servers =
     [(u ''xyz'', u ''whois.nic.xyz''),
      (u ''com'', u ''whois.verisign-grs.com''),
      (u ''net'', u ''whois.verisign-grs.com''),
      (u ''org'', u ''whois.pir.org''),
      (u ''io'', u ''whois.nic.io''),
      (u ''co'', u ''whois.nic.co''),
      (u ''me'', u ''whois.nic.me''),
      (u ''info'', u ''whois.afilias.net''),
      (u ''top'', u ''whois.nic.top''),
      (u ''cn'', u ''whois.cnnic.cn'')]"

definition get_whois_server :: "unicode_data \<Rightarrow> str \<Rightarrow> exc + str" where
  "get_whois_server db domain =
     (case index_last (str_split domain (ch CHR ''.'')) of
        Inl e \<Rightarrow> Inl e
      | Inr part \<Rightarrow>
          (let tld = str_lower db part
           in Inr (dict_get servers tld (u ''whois.nic.'' @ tld))))"

section \<open>check\_domain\_whois\<close>

definition not_found_keywords :: "str list" where
  "not_found_keywords =
     [u ''domain not found'',
      u ''no match'',
      u ''not found'',
      u ''no data found'',
      u ''no entries found'',
      u ''status: free'',
      u ''status: available'',
      u ''object does not exist'']"

text \<open>The loop of lines 79 to 81: true when it returns from inside, at the first match.\<close>

fun keyword_loop :: "str list \<Rightarrow> str \<Rightarrow> bool" where
  "keyword_loop [] output = False"
| "keyword_loop (keyword # rest) output =
     (if sublist keyword output then True else keyword_loop rest output)"

text \<open>Lines 65 to 87: what is returned for the standard output of a finished process.\<close>

definition classify :: "unicode_data \<Rightarrow> str \<Rightarrow> bool \<times> str" where
  "classify db stdout =
     (let output = str_lower db stdout
      in if keyword_loop not_found_keywords output then (True, MSG_AVAILABLE)
         else if sublist (u ''domain name:'') output \<or> sublist (u ''registrar:'') output
         then (False, MSG_REGISTERED)
         else (False, MSG_UNKNOWN))"

definition whois_argv :: "str \<Rightarrow> str \<Rightarrow> str list" where
  "whois_argv whois_server domain = [u ''whois'', u ''-h'', whois_server, domain]"

definition check_domain_whois ::
  "env \<Rightarrow> str \<Rightarrow> event list \<Rightarrow> (exc + bool \<times> str) \<times> event list" where
  "check_domain_whois env domain tr =
     (case get_whois_server (unicode env) domain of
        Inl e \<Rightarrow> (Inl e, tr)
      | Inr whois_server \<Rightarrow>
          (let argv = whois_argv whois_server domain;
               tr' = tr @ [Run argv 30]
           in case subprocess_run env argv 30 of
                Inr stdout \<Rightarrow> (Inr (classify (unicode env) stdout), tr')
              | Inl e \<Rightarrow>
                  if exc_cls e = TimeoutExpired then (Inr (False, MSG_TIMEOUT), tr')
                  else (Inr (False, MSG_ERROR @ exc_str e), tr')))"

section \<open>send\_email\<close>

text \<open>The loop of lines 113 and 114.\<close>

fun body_loop :: "str list \<Rightarrow> str \<Rightarrow> str" where
  "body_loop [] body = body"
| "body_loop (domain # rest) body = body_loop rest (body @ LI_OPEN @ domain @ LI_CLOSE)"

text \<open>Lines 104 to 133: the message.\<close>

definition build_message :: "env \<Rightarrow> str list \<Rightarrow> email" where
  "build_message env available_domains =
     \<lparr>mail_subject = SUBJECT_HEAD @ str_nat (length available_domains) @ SUBJECT_TAIL,
      mail_from = SMTP_USER env,
      mail_to = NOTIFY_EMAIL env,
      mail_body = body_loop available_domains BODY_HEAD @ BODY_TAIL @ now_mail env @ BODY_END\<rparr>"

text \<open>
  Lines 136 to 139: the session. Its steps run in order and the first exception ends it.
\<close>

definition smtp_session :: "env \<Rightarrow> email \<Rightarrow> exc option" where
  "smtp_session env msg =
     (case smtp_connect env (SMTP_SERVER env) (SMTP_PORT env) of
        Some e \<Rightarrow> Some e
      | None \<Rightarrow>
          (case smtp_starttls env of
             Some e \<Rightarrow> Some e
           | None \<Rightarrow>
               (case smtp_login env (SMTP_USER env) (SMTP_PASSWORD env) of
                  Some e \<Rightarrow> Some e
                | None \<Rightarrow> smtp_send_message env msg)))"

text \<open>Lines 103 to 142: the body of the \<open>try\<close>, with the exception that leaves it.\<close>

definition send_email_try ::
  "env \<Rightarrow> str list \<Rightarrow> event list \<Rightarrow> (exc + bool) \<times> event list" where
  "send_email_try env available_domains tr =
     (let msg = build_message env available_domains
      in case smtp_session env msg of
           Some e \<Rightarrow> (Inl e, tr)
         | None \<Rightarrow>
             (Inr True, tr @ [Mail_sent msg, println (MAIL_SENT_TO @ NOTIFY_EMAIL env)]))"

text \<open>Line 97: \<open>all([SMTP_USER, SMTP_PASSWORD, NOTIFY_EMAIL])\<close>; a string is true when not empty.\<close>

definition all_credentials :: "env \<Rightarrow> bool" where
  "all_credentials env =
     (SMTP_USER env \<noteq> [] \<and> SMTP_PASSWORD env \<noteq> [] \<and> NOTIFY_EMAIL env \<noteq> [])"

definition send_email :: "env \<Rightarrow> str list \<Rightarrow> event list \<Rightarrow> bool \<times> event list" where
  "send_email env available_domains tr =
     (if \<not> all_credentials env
      then (False, tr @ [println WARN_MAIL_CONFIG, println WARN_MAIL_ENV])
      else case send_email_try env available_domains tr of
             (Inr b, tr') \<Rightarrow> (b, tr')
           | (Inl e, tr') \<Rightarrow> (False, tr' @ [println (MAIL_FAILED @ exc_str e)]))"

section \<open>load\_watchlist\<close>

text \<open>The loop of lines 154 to 158.\<close>

fun watchlist_loop :: "unicode_data \<Rightarrow> str list \<Rightarrow> str list \<Rightarrow> str list" where
  "watchlist_loop db [] domains = domains"
| "watchlist_loop db (line # rest) domains =
     (let line' = str_strip db line
      in if line' \<noteq> [] \<and> \<not> prefix (u ''#'') line'
         then watchlist_loop db rest (domains @ [str_lower db line'])
         else watchlist_loop db rest domains)"

definition load_watchlist ::
  "env \<Rightarrow> str \<Rightarrow> event list \<Rightarrow> (abort + str list) \<times> event list" where
  "load_watchlist env filepath tr =
     (case open_read env filepath of
        Inr lines \<Rightarrow> (Inr (watchlist_loop (unicode env) lines []), tr)
      | Inl e \<Rightarrow>
          if exc_cls e = FileNotFoundError
          then (Inl (SystemExit 1), tr @ [println (NO_WATCHLIST_FILE @ filepath)])
          else (Inl (Uncaught e), tr))"

section \<open>main\<close>

text \<open>The loop of lines 187 to 196.\<close>

fun check_loop ::
  "env \<Rightarrow> str list \<Rightarrow> str list \<Rightarrow> event list \<Rightarrow> (exc + str list) \<times> event list" where
  "check_loop env [] available_domains tr = (Inr available_domains, tr)"
| "check_loop env (domain # rest) available_domains tr =
     (case check_domain_whois env domain (tr @ [Print (QUERYING @ domain @ u '' ... '')]) of
        (Inl e, tr') \<Rightarrow> (Inl e, tr')
      | (Inr (is_available, info), tr') \<Rightarrow>
          if is_available
          then check_loop env rest (available_domains @ [domain])
                 (tr' @ [println (CHECK_MARK @ info)])
          else check_loop env rest available_domains (tr' @ [println (CROSS_MARK @ info)]))"

text \<open>The loop of lines 212 and 213.\<close>

fun write_loop :: "str list \<Rightarrow> str \<Rightarrow> str" where
  "write_loop [] written = written"
| "write_loop (d # rest) written = write_loop rest (written @ d @ u ''\<newline>'')"

text \<open>\<open>os.getenv("GITHUB_OUTPUT")\<close> as a condition: set, and not the empty str.\<close>

definition output_path :: "env \<Rightarrow> str option" where
  "output_path env =
     (case GITHUB_OUTPUT env of
        None \<Rightarrow> None
      | Some p \<Rightarrow> if p \<noteq> [] then Some p else None)"

text \<open>Lines 200 to 224.\<close>

definition report :: "env \<Rightarrow> str list \<Rightarrow> event list \<Rightarrow> event list" where
  "report env available_domains tr =
     (if available_domains \<noteq> [] then
        (let tr1 = tr @ [println (FOUND_HEAD @ str_nat (length available_domains) @ FOUND_TAIL)]
                      @ map (\<lambda>d. println (u ''  '' @ CHECK_MARK @ d)) available_domains;
             tr2 = snd (send_email env available_domains tr1);
             tr3 = tr2 @ [Write_file (u ''available_domains.txt'')
                            (write_loop available_domains
                               (FILE_HEADER @ now_file env @ u ''\<newline>''))]
         in case output_path env of
              Some p \<Rightarrow>
                tr3 @ [Append_file p
                         (u ''available=true\<newline>'' @
                          u ''count='' @ str_nat (length available_domains) @ u ''\<newline>'')]
            | None \<Rightarrow> tr3)
      else
        (let tr1 = tr @ [println NONE_FOUND]
         in case output_path env of
              Some p \<Rightarrow> tr1 @ [Append_file p (u ''available=false\<newline>'')]
            | None \<Rightarrow> tr1))"

definition main :: "env \<Rightarrow> (abort + unit) \<times> event list" where
  "main env =
     (let tr0 = [println (replicate 60 (ch CHR ''='')),
                 println TITLE,
                 println (TIME_LABEL @ now_start env),
                 println (replicate 60 (ch CHR ''=''))]
      in case load_watchlist env (WATCHLIST_FILE env) tr0 of
           (Inl a, tr1) \<Rightarrow> (Inl a, tr1)
         | (Inr domains, tr1) \<Rightarrow>
             if domains = [] then (Inr (), tr1 @ [println WATCHLIST_EMPTY])
             else
               (let tr2 = tr1 @ [println (MONITOR_HEAD @ str_nat (length domains) @ MONITOR_TAIL)]
                             @ map (\<lambda>d. println (u ''  - '' @ d)) domains
                             @ [println (replicate 60 (ch CHR ''-''))]
                in case check_loop env domains [] tr2 of
                     (Inl e, tr3) \<Rightarrow> (Inl (Uncaught e), tr3)
                   | (Inr available_domains, tr3) \<Rightarrow>
                       (Inr (),
                        report env available_domains
                          (tr3 @ [println (replicate 60 (ch CHR ''-''))]))))"

text \<open>
  The exit status of the process: 0 when \<open>main\<close> returns, the argument of \<open>sys.exit\<close>
  (the script only calls \<open>sys.exit(1)\<close>), 1 for an exception that nothing catches.
\<close>

fun exit_status :: "abort + unit \<Rightarrow> int" where
  "exit_status (Inr v) = 0"
| "exit_status (Inl (SystemExit n)) = n"
| "exit_status (Inl (Uncaught e)) = 1"

section \<open>Reading a trace\<close>

fun mails :: "event list \<Rightarrow> email list" where
  "mails [] = []"
| "mails (Mail_sent m # tr) = m # mails tr"
| "mails (ev # tr) = mails tr"

fun lookups :: "event list \<Rightarrow> (str list \<times> nat) list" where
  "lookups [] = []"
| "lookups (Run argv t # tr) = (argv, t) # lookups tr"
| "lookups (ev # tr) = lookups tr"

fun writes :: "event list \<Rightarrow> (str \<times> str) list" where
  "writes [] = []"
| "writes (Write_file p s # tr) = (p, s) # writes tr"
| "writes (ev # tr) = writes tr"

fun appends :: "event list \<Rightarrow> (str \<times> str) list" where
  "appends [] = []"
| "appends (Append_file p s # tr) = (p, s) # appends tr"
| "appends (ev # tr) = appends tr"

fun printed :: "event list \<Rightarrow> str list" where
  "printed [] = []"
| "printed (Print s # tr) = s # printed tr"
| "printed (ev # tr) = printed tr"

section \<open>The spec's words, and the vocabulary of the claims\<close>

text \<open>
  The spec's words for the resolver: the suffix is the substring after the last \<open>.\<close>
  (the whole string when there is none), and the table maps ten suffixes to hosts.
\<close>

definition suffix_after_last_dot :: "str \<Rightarrow> str" where
  "suffix_after_last_dot d = rev (takeWhile (\<lambda>c. c \<noteq> (ch CHR ''.'')) (rev d))"

definition resolver_spec :: "str \<Rightarrow> str" where
  "resolver_spec suf =
     (if suf = u ''xyz'' then u ''whois.nic.xyz''
      else if suf = u ''com'' then u ''whois.verisign-grs.com''
      else if suf = u ''net'' then u ''whois.verisign-grs.com''
      else if suf = u ''org'' then u ''whois.pir.org''
      else if suf = u ''io'' then u ''whois.nic.io''
      else if suf = u ''co'' then u ''whois.nic.co''
      else if suf = u ''me'' then u ''whois.nic.me''
      else if suf = u ''info'' then u ''whois.afilias.net''
      else if suf = u ''top'' then u ''whois.nic.top''
      else if suf = u ''cn'' then u ''whois.cnnic.cn''
      else u ''whois.nic.'' @ suf)"

definition resolved_host :: "unicode_data \<Rightarrow> str \<Rightarrow> str" where
  "resolved_host db d = resolver_spec (str_lower db (suffix_after_last_dot d))"

text \<open>
  The spec's words for the checker: the lowercased response is available when it
  contains one of the eight phrases, else registered when it contains one of the two
  markers, else indeterminate.
\<close>

datatype classification = Available | Registered | Indeterminate

definition classification_spec :: "unicode_data \<Rightarrow> str \<Rightarrow> classification" where
  "classification_spec db response =
     (let text = str_lower db response
      in if sublist (u ''domain not found'') text \<or> sublist (u ''no match'') text \<or>
            sublist (u ''not found'') text \<or> sublist (u ''no data found'') text \<or>
            sublist (u ''no entries found'') text \<or> sublist (u ''status: free'') text \<or>
            sublist (u ''status: available'') text \<or> sublist (u ''object does not exist'') text
         then Available
         else if sublist (u ''domain name:'') text \<or> sublist (u ''registrar:'') text
         then Registered
         else Indeterminate)"

text \<open>The pair that the script returns for each class.\<close>

fun returned_for :: "classification \<Rightarrow> bool \<times> str" where
  "returned_for Available = (True, MSG_AVAILABLE)"
| "returned_for Registered = (False, MSG_REGISTERED)"
| "returned_for Indeterminate = (False, MSG_UNKNOWN)"

text \<open>
  The spec's words for the loader: a line is kept when it has a first character that is
  not white space and that character is not \<open>#\<close>; a kept line is trimmed and lowercased.
\<close>

definition first_non_space :: "unicode_data \<Rightarrow> str \<Rightarrow> int option" where
  "first_non_space db l =
     (case dropWhile (isspace db) l of [] \<Rightarrow> None | c # rest \<Rightarrow> Some c)"

definition watchlist_spec :: "unicode_data \<Rightarrow> str list \<Rightarrow> str list" where
  "watchlist_spec db lines =
     map (\<lambda>l. str_lower db (str_strip db l))
       (filter (\<lambda>l. first_non_space db l \<noteq> None \<and>
                   first_non_space db l \<noteq> Some (ch CHR ''#'')) lines)"

text \<open>
  A domain is classified available in a run when \<open>check_domain_whois\<close> returns
  \<open>True\<close> for it.
\<close>

definition classified_available :: "env \<Rightarrow> str \<Rightarrow> bool" where
  "classified_available env d =
     (case fst (check_domain_whois env d []) of
        Inr (is_available, info) \<Rightarrow> is_available
      | Inl e \<Rightarrow> False)"

text \<open>The entries of the watchlist that a run classifies available, in file order.\<close>

definition available_in :: "env \<Rightarrow> str list \<Rightarrow> str list" where
  "available_in env lines = filter (classified_available env) (watchlist_loop (unicode env) lines [])"

text \<open>The argument vector and the timeout of the lookup of one domain.\<close>

definition lookup_of :: "unicode_data \<Rightarrow> str \<Rightarrow> str list \<times> nat" where
  "lookup_of db d = (whois_argv (resolved_host db d) d, 30)"

text \<open>The text of the result file for a list of domains, after the time stamp line.\<close>

definition result_file_text :: "env \<Rightarrow> str list \<Rightarrow> str" where
  "result_file_text env ds =
     FILE_HEADER @ now_file env @ u ''\<newline>'' @ concat (map (\<lambda>d. d @ u ''\<newline>'') ds)"

section \<open>Concrete runs\<close>

text \<open>
  A run in which everything works: three watchlist lines, of which the second names a
  registered domain, complete credentials and a mail relay that accepts the message.
\<close>

definition demo_env :: env where
  "demo_env =
     \<lparr>unicode = sample_unicode,
      SMTP_SERVER = u ''smtp.gmail.com'', SMTP_PORT = 587, SMTP_USER = u ''me@example.org'',
      SMTP_PASSWORD = u ''secret'', NOTIFY_EMAIL = u ''you@example.org'',
      WATCHLIST_FILE = u ''watchlist.txt'', GITHUB_OUTPUT = Some (u ''/tmp/github_output''),
      now_start = u ''2024-01-01 00:00:00'', now_mail = u ''2024-01-01 00:00:05'',
      now_file = u ''2024-01-01 00:00:06'',
      open_read = (\<lambda>p. Inr [u ''foo.xyz\<newline>'', u ''Taken.org\<newline>'', u ''bar.com'']),
      subprocess_run =
        (\<lambda>argv t. if argv = [u ''whois'', u ''-h'', u ''whois.pir.org'', u ''taken.org'']
                  then Inr (u ''Domain Name: TAKEN.ORG\<newline>Registrar: Example Inc.\<newline>'')
                  else Inr (u ''No match for domain.\<newline>'')),
      smtp_connect = (\<lambda>h p. None), smtp_starttls = None, smtp_login = (\<lambda>usr pw. None),
      smtp_send_message = (\<lambda>m. None)\<rparr>"

text \<open>The same run with a mail relay that refuses the connection.\<close>

definition refused_env :: env where
  "refused_env =
     demo_env\<lparr>smtp_connect := (\<lambda>h p. Some (Exc OtherException (u ''[Errno 111] Connection refused'')))\<rparr>"



text \<open>The same run with no watchlist file.\<close>

definition missing_env :: env where
  "missing_env =
     demo_env\<lparr>open_read :=
       (\<lambda>p. Inl (Exc FileNotFoundError (u ''[Errno 2] No such file or directory: watchlist.txt'')))\<rparr>"

text \<open>The same run with a watchlist file that exists and may not be read.\<close>

definition unreadable_env :: env where
  "unreadable_env =
     demo_env\<lparr>open_read :=
       (\<lambda>p. Inl (Exc OtherException (u ''[Errno 13] Permission denied: watchlist.txt'')))\<rparr>"

text \<open>The same run with every domain registered.\<close>

definition registered_env :: env where
  "registered_env =
     demo_env\<lparr>subprocess_run := (\<lambda>argv t. Inr (u ''Domain Name: X\<newline>Registrar: Example Inc.\<newline>''))\<rparr>"

text \<open>
  The same run with a lookup that times out for the first domain and cannot start for
  the second.
\<close>

definition flaky_env :: env where
  "flaky_env =
     demo_env\<lparr>subprocess_run :=
       (\<lambda>argv t. if argv = [u ''whois'', u ''-h'', u ''whois.nic.xyz'', u ''foo.xyz'']
                 then Inl (Exc TimeoutExpired (u ''Command timed out after 30 seconds''))
                 else if argv = [u ''whois'', u ''-h'', u ''whois.pir.org'', u ''taken.org'']
                 then Inl (Exc OtherException (u ''[Errno 12] Cannot allocate memory''))
                 else Inr (u ''No match for domain.\<newline>''))\<rparr>"

text \<open>The run on the watchlist of the spec's example.\<close>

definition example_env :: env where
  "example_env =
     demo_env\<lparr>open_read := (\<lambda>p. Inr [u ''example.com'', [], u ''# comment'', u ''  TEST.IO  ''])\<rparr>"

text \<open>
  The run on a watchlist with a comment line behind an ideographic space (U+3000) and a
  domain that begins with a capital E with acute accent (U+00C9).
\<close>

definition accented_env :: env where
  "accented_env =
     demo_env\<lparr>open_read :=
       (\<lambda>p. Inr [[0x3000] @ u ''# note\<newline>'', [0xC9] @ u ''XAMPLE.COM\<newline>''])\<rparr>"

section \<open>Properties of the values\<close>

lemma ch_eq_iff [simp]: "ch a = ch b \<longleftrightarrow> a = b"
  by (simp add: ch_def)

lemma u_eq_iff [simp]: "u a = u b \<longleftrightarrow> a = b"
proof -
  have "inj (of_char :: char \<Rightarrow> int)"
    by (rule injI) simp
  then show ?thesis
    unfolding u_def by (simp add: inj_map_eq_map)
qed

lemma u_Nil [simp]: "u [] = []" "u s = [] \<longleftrightarrow> s = []" "[] = u s \<longleftrightarrow> s = []"
  by (auto simp: u_def)

lemma u_append: "u (a @ b) = u a @ u b"
  by (simp add: u_def)

lemma u_join: "u a @ u b = u (a @ b)" "u a @ u b @ r = u (a @ b) @ r"
  by (simp_all add: u_def)

section \<open>Properties of the resolver\<close>

lemma split_from_nonempty: "split_from sep cur s \<noteq> []"
  by (induction s arbitrary: cur) auto

lemma last_split_from:
  "last (split_from sep cur s) =
     (if sep \<in> set s then rev (takeWhile (\<lambda>c. c \<noteq> sep) (rev s)) else cur @ s)"
proof (induction s arbitrary: cur)
  case Nil
  show ?case by simp
next
  case (Cons x xs)
  show ?case
  proof (cases "x = sep")
    case True
    then show ?thesis
      using Cons.IH [of "[]"] split_from_nonempty [of sep "[]" xs]
      by (auto simp: takeWhile_append)
  next
    case False
    then show ?thesis
      using Cons.IH [of "cur @ [x]"] by (auto simp: takeWhile_append)
  qed
qed

lemma takeWhile_rev_no_sep:
  assumes "sep \<notin> set s"
  shows "rev (takeWhile (\<lambda>c. c \<noteq> sep) (rev s)) = s"
proof -
  have "takeWhile (\<lambda>c. c \<noteq> sep) (rev s) = rev s"
    using assms by auto
  then show ?thesis by (simp only: rev_rev_ident)
qed

lemma last_str_split: "last (str_split d (ch CHR ''.'')) = suffix_after_last_dot d"
  by (simp add: str_split_def last_split_from suffix_after_last_dot_def takeWhile_rev_no_sep)

lemma suffix_after_last_dot_append:
  "(ch CHR ''.'') \<notin> set suf \<Longrightarrow> suffix_after_last_dot (pre @ u ''.'' @ suf) = suf"
  by (simp add: suffix_after_last_dot_def takeWhile_append u_def ch_def)

lemma suffix_after_last_dot_no_dot:
  "(ch CHR ''.'') \<notin> set d \<Longrightarrow> suffix_after_last_dot d = d"
  by (simp add: suffix_after_last_dot_def takeWhile_rev_no_sep)

lemma get_whois_server_eq:
  "get_whois_server db d = Inr (resolver_spec (str_lower db (suffix_after_last_dot d)))"
proof -
  have "index_last (str_split d (ch CHR ''.'')) = Inr (suffix_after_last_dot d)"
    using split_from_nonempty [of "(ch CHR ''.'')" "[]" d] last_str_split [of d]
    by (simp add: index_last_def str_split_def)
  then show ?thesis
    by (simp add: get_whois_server_def Let_def dict_get_def servers_def resolver_spec_def)
qed

section \<open>Properties of the checker and the loader\<close>

lemma keyword_loop_any: "keyword_loop ks out = (\<exists>k\<in>set ks. sublist k out)"
  by (induction ks) auto

lemma classify_spec: "classify db out = returned_for (classification_spec db out)"
  by (simp add: classify_def classification_spec_def Let_def not_found_keywords_def)

lemma classify_lower: "str_lower db a = str_lower db b \<Longrightarrow> classify db a = classify db b"
  by (simp add: classify_def)

lemma inj_returned_for: "inj returned_for"
proof (rule injI)
  fix a b assume "returned_for a = returned_for b"
  moreover have "MSG_REGISTERED \<noteq> MSG_UNKNOWN" by (simp add: MSG_REGISTERED_def MSG_UNKNOWN_def)
  ultimately show "a = b" by (cases a; cases b) auto
qed

lemma str_strip_first:
  "str_strip db l = (case dropWhile (isspace db) l of [] \<Rightarrow> [] | c # rest \<Rightarrow> c # rev (dropWhile (isspace db) (rev rest)))"
proof (cases "dropWhile (isspace db) l")
  case Nil
  show ?thesis unfolding str_strip_def Nil by simp
next
  case (Cons c rest)
  then have "\<not> (isspace db) c" using hd_dropWhile [of "isspace db" l] by auto
  then have "dropWhile (isspace db) (rev rest @ [c]) = dropWhile (isspace db) (rev rest) @ [c]"
    by (simp add: dropWhile_append)
  then show ?thesis unfolding str_strip_def Cons by simp
qed

lemma keep_line_iff:
  "(str_strip db l \<noteq> [] \<and> \<not> prefix (u ''#'') (str_strip db l)) =
     (first_non_space db l \<noteq> None \<and> first_non_space db l \<noteq> Some (ch CHR ''#''))"
proof (cases "dropWhile (isspace db) l")
  case Nil
  show ?thesis unfolding str_strip_first first_non_space_def Nil by simp
next
  case (Cons c rest)
  show ?thesis unfolding str_strip_first first_non_space_def Cons
    by (auto simp: u_def ch_def)
qed

lemma watchlist_loop_spec: "watchlist_loop db lines acc = acc @ watchlist_spec db lines"
proof (induction lines arbitrary: acc)
  case Nil
  show ?case by (simp add: watchlist_spec_def)
next
  case (Cons l ls)
  have "watchlist_spec db (l # ls) =
          (if str_strip db l \<noteq> [] \<and> \<not> prefix (u ''#'') (str_strip db l)
           then str_lower db (str_strip db l) # watchlist_spec db ls else watchlist_spec db ls)"
    unfolding keep_line_iff by (simp add: watchlist_spec_def)
  then show ?case using Cons.IH by (simp add: Let_def)
qed

section \<open>Properties of a run\<close>


lemma check_domain_whois_eq:
  "check_domain_whois env d tr =
     ((case subprocess_run env (whois_argv (resolved_host (unicode env) d) d) 30 of
         Inr out \<Rightarrow> Inr (classify (unicode env) out)
       | Inl e \<Rightarrow> if exc_cls e = TimeoutExpired then Inr (False, MSG_TIMEOUT)
                  else Inr (False, MSG_ERROR @ exc_str e)),
      tr @ [Run (whois_argv (resolved_host (unicode env) d) d) 30])"
  by (simp add: check_domain_whois_def get_whois_server_eq resolved_host_def Let_def
      split: sum.splits)

lemma check_domain_whois_returns:
  "\<exists>b info. check_domain_whois env d tr = (Inr (b, info), tr @ [Run (whois_argv (resolved_host (unicode env) d) d) 30])"
  unfolding check_domain_whois_eq by (cases "subprocess_run env (whois_argv (resolved_host (unicode env) d) d) 30") auto

lemma check_domain_whois_trace:
  "fst (check_domain_whois env d tr) = fst (check_domain_whois env d [])"
  by (simp add: check_domain_whois_eq)

lemma mails_append [simp]: "mails (a @ b) = mails a @ mails b"
  by (induction a rule: mails.induct) auto

lemma lookups_append [simp]: "lookups (a @ b) = lookups a @ lookups b"
  by (induction a rule: lookups.induct) auto

lemma writes_append [simp]: "writes (a @ b) = writes a @ writes b"
  by (induction a rule: writes.induct) auto

lemma appends_append [simp]: "appends (a @ b) = appends a @ appends b"
  by (induction a rule: appends.induct) auto

lemma printed_append [simp]: "printed (a @ b) = printed a @ printed b"
  by (induction a rule: printed.induct) auto

lemma println_obs [simp]:
  "mails (println s # tr) = mails tr" "lookups (println s # tr) = lookups tr"
  "writes (println s # tr) = writes tr" "appends (println s # tr) = appends tr"
  "printed (println s # tr) = (s @ u ''\<newline>'') # printed tr"
  by (simp_all add: println_def)

lemma map_println_obs [simp]:
  "mails (map (\<lambda>d. println (f d)) ds) = []" "lookups (map (\<lambda>d. println (f d)) ds) = []"
  "writes (map (\<lambda>d. println (f d)) ds) = []" "appends (map (\<lambda>d. println (f d)) ds) = []"
  by (induction ds) simp_all

lemma check_loop_result:
  "fst (check_loop env ds av tr) = Inr (av @ filter (classified_available env) ds)"
proof (induction ds arbitrary: av tr)
  case Nil
  show ?case by simp
next
  case (Cons d ds)
  obtain b info where r: "check_domain_whois env d (tr @ [Print (QUERYING @ d @ u '' ... '')]) =
      (Inr (b, info), (tr @ [Print (QUERYING @ d @ u '' ... '')]) @ [Run (whois_argv (resolved_host (unicode env) d) d) 30])"
    using check_domain_whois_returns by blast
  have "fst (check_domain_whois env d []) = Inr (b, info)"
    using r check_domain_whois_trace [of env d "tr @ [Print (QUERYING @ d @ u '' ... '')]"] by simp
  then have c: "classified_available env d = b"
    by (simp add: classified_available_def)
  show ?case using r c Cons.IH by simp
qed

lemma check_loop_obs:
  "lookups (snd (check_loop env ds av tr)) = lookups tr @ map (lookup_of (unicode env)) ds \<and>
   mails (snd (check_loop env ds av tr)) = mails tr \<and>
   writes (snd (check_loop env ds av tr)) = writes tr \<and>
   appends (snd (check_loop env ds av tr)) = appends tr"
proof (induction ds arbitrary: av tr)
  case Nil
  show ?case by simp
next
  case (Cons d ds)
  obtain b info where r: "check_domain_whois env d (tr @ [Print (QUERYING @ d @ u '' ... '')]) =
      (Inr (b, info), (tr @ [Print (QUERYING @ d @ u '' ... '')]) @ [Run (whois_argv (resolved_host (unicode env) d) d) 30])"
    using check_domain_whois_returns by blast
  show ?case using r Cons.IH by (simp add: lookup_of_def)
qed

lemma smtp_obs [simp]:
  "lookups (snd (send_email env av tr)) = lookups tr"
  "writes (snd (send_email env av tr)) = writes tr"
  "appends (snd (send_email env av tr)) = appends tr"
  by (simp_all add: send_email_def send_email_try_def Let_def split: option.splits)

lemma mails_send_email:
  "mails (snd (send_email env av tr)) =
     mails tr @ (if all_credentials env \<and> smtp_session env (build_message env av) = None
                 then [build_message env av] else [])"
  by (simp add: send_email_def send_email_try_def Let_def split: option.splits)

lemma write_loop_concat: "write_loop ds w = w @ concat (map (\<lambda>d. d @ u ''\<newline>'') ds)"
  by (induction ds arbitrary: w) simp_all

lemma body_loop_concat: "body_loop ds body = body @ concat (map (\<lambda>d. LI_OPEN @ d @ LI_CLOSE) ds)"
  by (induction ds arbitrary: body) simp_all

lemma sublist_concat_map: "d \<in> set ds \<Longrightarrow> sublist (f d) (concat (map f ds))"
proof -
  assume "d \<in> set ds"
  then obtain ps ss where "ds = ps @ d # ss" by (meson split_list)
  then have "concat (map f ds) = concat (map f ps) @ f d @ concat (map f ss)" by simp
  then show ?thesis unfolding sublist_def by blast
qed

lemma body_lists_domain:
  "d \<in> set av \<Longrightarrow> sublist (LI_OPEN @ d @ LI_CLOSE) (mail_body (build_message env av))"
proof -
  assume "d \<in> set av"
  then have "sublist (LI_OPEN @ d @ LI_CLOSE) (concat (map (\<lambda>d. LI_OPEN @ d @ LI_CLOSE) av))"
    by (rule sublist_concat_map)
  then obtain ps ss where "concat (map (\<lambda>d. LI_OPEN @ d @ LI_CLOSE) av) = ps @ (LI_OPEN @ d @ LI_CLOSE) @ ss"
    unfolding sublist_def by blast
  then have "mail_body (build_message env av) =
      (BODY_HEAD @ ps) @ (LI_OPEN @ d @ LI_CLOSE) @ (ss @ BODY_TAIL @ now_mail env @ BODY_END)"
    by (simp add: build_message_def body_loop_concat)
  then show ?thesis unfolding sublist_def by blast
qed

lemma report_obs:
  "lookups (report env av tr) = lookups tr \<and>
   mails (report env av tr) =
     mails tr @ (if av \<noteq> [] \<and> all_credentials env \<and> smtp_session env (build_message env av) = None
                 then [build_message env av] else []) \<and>
   writes (report env av tr) =
     writes tr @ (if av \<noteq> [] then [(u ''available_domains.txt'', result_file_text env av)] else []) \<and>
   appends (report env av tr) =
     appends tr @ (case output_path env of
                     None \<Rightarrow> []
                   | Some p \<Rightarrow>
                       if av \<noteq> []
                       then [(p, u ''available=true\<newline>'' @ u ''count='' @ str_nat (length av) @ u ''\<newline>'')]
                       else [(p, u ''available=false\<newline>'')])"
  by (simp add: report_def Let_def mails_send_email write_loop_concat result_file_text_def
      split: option.splits)

lemma main_loaded:
  assumes "open_read env (WATCHLIST_FILE env) = Inr lines" and "watchlist_loop (unicode env) lines [] \<noteq> []"
  shows "\<exists>tr. main env = (Inr (), report env (available_in env lines) tr) \<and>
           lookups tr = map (lookup_of (unicode env)) (watchlist_loop (unicode env) lines []) \<and>
           mails tr = [] \<and> writes tr = [] \<and> appends tr = []"
proof -
  define tr2 where "tr2 = [println (replicate 60 (ch CHR ''='')), println TITLE,
      println (TIME_LABEL @ now_start env), println (replicate 60 (ch CHR ''=''))] @
      [println (MONITOR_HEAD @ str_nat (length (watchlist_loop (unicode env) lines [])) @ MONITOR_TAIL)] @
      map (\<lambda>d. println (u ''  - '' @ d)) (watchlist_loop (unicode env) lines []) @
      [println (replicate 60 (ch CHR ''-''))]"
  define res where "res = check_loop env (watchlist_loop (unicode env) lines []) [] tr2"
  have f: "fst res = Inr (available_in env lines)"
    by (simp add: res_def check_loop_result available_in_def)
  have o: "lookups (snd res) = map (lookup_of (unicode env)) (watchlist_loop (unicode env) lines []) \<and> mails (snd res) = [] \<and>
           writes (snd res) = [] \<and> appends (snd res) = []"
    unfolding res_def using check_loop_obs [of env "watchlist_loop (unicode env) lines []" "[]" tr2]
    by (simp add: tr2_def)
  have "main env = (Inr (), report env (available_in env lines)
                      (snd res @ [println (replicate 60 (ch CHR ''-''))]))"
    using assms f by (cases res) (simp add: main_def load_watchlist_def Let_def res_def tr2_def)
  then show ?thesis using o by auto
qed


lemma available_in_empty: "watchlist_loop (unicode env) lines [] = [] \<Longrightarrow> available_in env lines = []"
  by (simp add: available_in_def)

lemma main_obs:
  assumes "open_read env (WATCHLIST_FILE env) = Inr lines"
  shows "fst (main env) = Inr () \<and>
         lookups (snd (main env)) = map (lookup_of (unicode env)) (watchlist_loop (unicode env) lines []) \<and>
         mails (snd (main env)) =
           (if available_in env lines \<noteq> [] \<and> all_credentials env \<and>
               smtp_session env (build_message env (available_in env lines)) = None
            then [build_message env (available_in env lines)] else []) \<and>
         writes (snd (main env)) =
           (if available_in env lines \<noteq> []
            then [(u ''available_domains.txt'', result_file_text env (available_in env lines))]
            else []) \<and>
         appends (snd (main env)) =
           (if watchlist_loop (unicode env) lines [] = [] then []
            else case output_path env of
                   None \<Rightarrow> []
                 | Some p \<Rightarrow>
                     if available_in env lines \<noteq> []
                     then [(p, u ''available=true\<newline>'' @ u ''count='' @
                               str_nat (length (available_in env lines)) @ u ''\<newline>'')]
                     else [(p, u ''available=false\<newline>'')])"
proof (cases "watchlist_loop (unicode env) lines [] = []")
  case True
  then have "main env = (Inr (), [println (replicate 60 (ch CHR ''='')), println TITLE,
      println (TIME_LABEL @ now_start env), println (replicate 60 (ch CHR ''='')),
      println WATCHLIST_EMPTY])"
    using assms by (simp add: main_def load_watchlist_def Let_def)
  then show ?thesis
    using True by (simp add: available_in_empty)
next
  case False
  then obtain tr where m: "main env = (Inr (), report env (available_in env lines) tr)"
    and t: "lookups tr = map (lookup_of (unicode env)) (watchlist_loop (unicode env) lines [])" "mails tr = []"
           "writes tr = []" "appends tr = []"
    using main_loaded [OF assms] by blast
  show ?thesis
    using False report_obs [of env "available_in env lines" tr]
    by (simp add: m t split: option.splits)
qed



lemma str_lower_ascii: "is_ascii s \<Longrightarrow> str_lower db s = map ascii_lower s"
  by transfer auto

lemma str_lower_empty: "str_lower db [] = []"
  by (simp add: str_lower_ascii is_ascii_def)

lemma isspace_ascii: "0 \<le> c \<Longrightarrow> c < 128 \<Longrightarrow> isspace db c = ascii_space c"
  by transfer auto


lemma main_not_opened:
  assumes "open_read env (WATCHLIST_FILE env) = Inl e"
  shows "main env =
           (if exc_cls e = FileNotFoundError
            then (Inl (SystemExit 1),
                  [println (replicate 60 (ch CHR ''='')), println TITLE,
                   println (TIME_LABEL @ now_start env), println (replicate 60 (ch CHR ''='')),
                   println (NO_WATCHLIST_FILE @ WATCHLIST_FILE env)])
            else (Inl (Uncaught e),
                  [println (replicate 60 (ch CHR ''='')), println TITLE,
                   println (TIME_LABEL @ now_start env), println (replicate 60 (ch CHR ''=''))]))"
  using assms by (simp add: main_def load_watchlist_def Let_def)







lemma distinct_messages:
  "MSG_TIMEOUT \<noteq> MSG_AVAILABLE \<and> MSG_TIMEOUT \<noteq> MSG_REGISTERED \<and> MSG_TIMEOUT \<noteq> MSG_UNKNOWN \<and>
   \<not> prefix MSG_ERROR MSG_TIMEOUT"
  by code_simp

lemma dropWhile_isspace_ascii:
  "is_ascii s \<Longrightarrow> dropWhile (isspace db) s = dropWhile ascii_space s"
  by (rule dropWhile_cong) (auto simp: is_ascii_def isspace_ascii)

lemma is_ascii_dropWhile: "is_ascii s \<Longrightarrow> is_ascii (dropWhile P s)"
  using set_dropWhileD [of _ P s] by (auto simp: is_ascii_def)

lemma is_ascii_rev: "is_ascii (rev s) = is_ascii s"
  by (simp add: is_ascii_def)

lemma str_strip_ascii:
  assumes "is_ascii s"
  shows "str_strip db s = rev (dropWhile ascii_space (rev (dropWhile ascii_space s)))"
    and "is_ascii (str_strip db s)"
proof -
  have "is_ascii (rev (dropWhile ascii_space s))"
    using assms by (simp add: is_ascii_rev is_ascii_dropWhile)
  then show "str_strip db s = rev (dropWhile ascii_space (rev (dropWhile ascii_space s)))"
    using assms by (simp add: str_strip_def dropWhile_isspace_ascii)
  then show "is_ascii (str_strip db s)"
    using assms by (simp add: is_ascii_rev is_ascii_dropWhile)
qed

lemma watchlist_loop_ascii:
  "\<forall>l\<in>set lines. is_ascii l \<Longrightarrow>
     watchlist_loop db lines acc = watchlist_loop db' lines acc"
proof (induction lines arbitrary: acc)
  case Nil
  show ?case by simp
next
  case (Cons l ls)
  have a: "is_ascii l" using Cons.prems by simp
  have s: "str_strip db l = str_strip db' l"
    using str_strip_ascii(1) [OF a] by simp
  have "str_lower db (str_strip db' l) = str_lower db' (str_strip db' l)"
    using str_strip_ascii(2) [OF a, of db'] by (simp add: str_lower_ascii)
  then show ?case using Cons s by (simp add: Let_def)
qed

section \<open>The claims\<close>

text \<open>
  C1: for every response text, the checker lowercases the text and returns available
  when the lowercased text contains one of the eight not-found phrases, otherwise
  registered when it contains \<open>domain name:\<close> or \<open>registrar:\<close>, otherwise indeterminate;
  the three answers differ from each other, two texts that agree up to case get the
  same answer, and this is what \<open>check_domain_whois\<close> returns when the lookup
  process finishes with that text on its standard output.
\<close>

theorem check_domain_whois_classifies:
  "classify db out = returned_for (classification_spec db out) \<and>
   inj returned_for \<and>
   (str_lower db out' = str_lower db out \<longrightarrow> classify db out' = classify db out) \<and>
   (subprocess_run env (whois_argv (resolved_host (unicode env) domain) domain) 30 = Inr out \<longrightarrow>
      fst (check_domain_whois env domain tr) = Inr (classify (unicode env) out))"
proof -
  have "str_lower db out' = str_lower db out \<longrightarrow> classify db out' = classify db out"
    using classify_lower by blast
  moreover have
    "subprocess_run env (whois_argv (resolved_host (unicode env) domain) domain) 30 = Inr out \<longrightarrow>
      fst (check_domain_whois env domain tr) = Inr (classify (unicode env) out)"
    by (simp add: check_domain_whois_eq)
  ultimately show ?thesis
    using classify_spec [of db out] inj_returned_for by blast
qed

theorem check_domain_whois_classifies_witness:
  "fst (check_domain_whois demo_env (u ''foo.xyz'') []) = Inr (True, MSG_AVAILABLE) \<and>
   classify sample_unicode (u ''NO MATCH for Domain.\<newline>'') = (True, MSG_AVAILABLE)"
proof -
  have d: "unicode demo_env = sample_unicode"
    by (simp add: demo_env_def)
  have h1: "str_lower sample_unicode (u ''NO MATCH for Domain.\<newline>'') =
            str_lower sample_unicode (u ''No match for domain.\<newline>'')"
    by code_simp
  have h2: "subprocess_run demo_env
              (whois_argv (resolved_host (unicode demo_env) (u ''foo.xyz'')) (u ''foo.xyz'')) 30 =
              Inr (u ''No match for domain.\<newline>'')"
    by code_simp
  have c: "classification_spec sample_unicode (u ''No match for domain.\<newline>'') = Available"
    by code_simp
  show ?thesis
    using check_domain_whois_classifies
      [where db = sample_unicode and out = "u ''No match for domain.\<newline>''"
         and out' = "u ''NO MATCH for Domain.\<newline>''" and env = demo_env
         and domain = "u ''foo.xyz''" and tr = "[]"]
      h1 h2 c d
    by simp
qed

text \<open>
  C2: for every domain name, \<open>get_whois_server\<close> raises nothing and returns the host that
  the ten-entry table gives for the lowercased suffix (the substring after the last dot),
  or \<open>whois.nic.\<close> followed by the lowercased suffix for any other suffix; two domain
  names whose suffixes agree up to case get the same answer. This holds whatever the
  character database of the interpreter is.
\<close>

theorem get_whois_server_suffix_only:
  "get_whois_server db d = Inr (resolver_spec (str_lower db (suffix_after_last_dot d))) \<and>
   (\<forall>d'. str_lower db (suffix_after_last_dot d') = str_lower db (suffix_after_last_dot d) \<longrightarrow>
      get_whois_server db d' = get_whois_server db d)"
  by (simp add: get_whois_server_eq)

theorem get_whois_server_suffix_only_witness:
  "get_whois_server sample_unicode (u ''Example.COM'') = Inr (u ''whois.verisign-grs.com'') \<and>
   get_whois_server sample_unicode (u ''foo.com'') =
     get_whois_server sample_unicode (u ''Example.COM'') \<and>
   get_whois_server sample_unicode (u ''x.'' @ [0x420, 0x424]) =
     Inr (u ''whois.nic.'' @ [0x440, 0x444]) \<and>
   get_whois_server sample_unicode (u ''x.'' @ [0x440, 0x444]) =
     get_whois_server sample_unicode (u ''x.'' @ [0x420, 0x424])"
proof -
  have h1: "str_lower sample_unicode (suffix_after_last_dot (u ''foo.com'')) =
            str_lower sample_unicode (suffix_after_last_dot (u ''Example.COM''))"
    by code_simp
  have r1: "resolver_spec (str_lower sample_unicode (suffix_after_last_dot (u ''Example.COM''))) =
            u ''whois.verisign-grs.com''"
    by code_simp
  have h2: "str_lower sample_unicode (suffix_after_last_dot (u ''x.'' @ [0x440, 0x444])) =
            str_lower sample_unicode (suffix_after_last_dot (u ''x.'' @ [0x420, 0x424]))"
    by code_simp
  have r2: "resolver_spec
              (str_lower sample_unicode (suffix_after_last_dot (u ''x.'' @ [0x420, 0x424]))) =
            u ''whois.nic.'' @ [0x440, 0x444]"
    by code_simp
  have 1: "get_whois_server sample_unicode (u ''Example.COM'') = Inr (u ''whois.verisign-grs.com'') \<and>
           get_whois_server sample_unicode (u ''foo.com'') =
             get_whois_server sample_unicode (u ''Example.COM'')"
    using get_whois_server_suffix_only [of sample_unicode "u ''Example.COM''"] h1 r1 by simp
  have 2: "get_whois_server sample_unicode (u ''x.'' @ [0x420, 0x424]) =
             Inr (u ''whois.nic.'' @ [0x440, 0x444]) \<and>
           get_whois_server sample_unicode (u ''x.'' @ [0x440, 0x444]) =
             get_whois_server sample_unicode (u ''x.'' @ [0x420, 0x424])"
    using get_whois_server_suffix_only [of sample_unicode "u ''x.'' @ [0x420, 0x424]"] h2 r2
    by simp
  from 1 2 show ?thesis by blast
qed

text \<open>
  C3: \<open>load_watchlist\<close> keeps the lines that have a first character that is not white
  space and is not \<open>#\<close>, trimmed and lowercased, in file order and without removing
  duplicates, whatever the character database of the interpreter is; under every
  database the four lines of the spec's example give \<open>example.com\<close> and \<open>test.io\<close>.
\<close>

theorem load_watchlist_filters:
  "(open_read env path = Inr lines \<longrightarrow>
      load_watchlist env path tr = (Inr (watchlist_spec (unicode env) lines), tr)) \<and>
   watchlist_loop db [u ''example.com'', [], u ''# comment'', u ''  TEST.IO  ''] [] =
     [u ''example.com'', u ''test.io'']"
proof -
  have a: "\<forall>l\<in>set [u ''example.com'', [], u ''# comment'', u ''  TEST.IO  '']. is_ascii l"
    by code_simp
  have "watchlist_loop sample_unicode
          [u ''example.com'', [], u ''# comment'', u ''  TEST.IO  ''] [] =
        [u ''example.com'', u ''test.io'']"
    by code_simp
  then have "watchlist_loop db [u ''example.com'', [], u ''# comment'', u ''  TEST.IO  ''] [] =
        [u ''example.com'', u ''test.io'']"
    using watchlist_loop_ascii [OF a, of db "[]" sample_unicode] by simp
  then show ?thesis by (simp add: load_watchlist_def watchlist_loop_spec)
qed

theorem load_watchlist_filters_witness:
  "load_watchlist example_env (u ''watchlist.txt'') [] =
     (Inr [u ''example.com'', u ''test.io''], []) \<and>
   load_watchlist accented_env (u ''watchlist.txt'') [] =
     (Inr [[0xE9] @ u ''xample.com''], [])"
proof -
  have h1: "open_read example_env (u ''watchlist.txt'') =
             Inr [u ''example.com'', [], u ''# comment'', u ''  TEST.IO  '']"
    by (simp add: example_env_def)
  have s1: "watchlist_spec (unicode example_env)
              [u ''example.com'', [], u ''# comment'', u ''  TEST.IO  ''] =
             [u ''example.com'', u ''test.io'']"
    by code_simp
  have h2: "open_read accented_env (u ''watchlist.txt'') =
             Inr [[0x3000] @ u ''# note\<newline>'', [0xC9] @ u ''XAMPLE.COM\<newline>'']"
    by (simp add: accented_env_def)
  have s2: "watchlist_spec (unicode accented_env)
              [[0x3000] @ u ''# note\<newline>'', [0xC9] @ u ''XAMPLE.COM\<newline>''] =
             [[0xE9] @ u ''xample.com'']"
    by code_simp
  have 1: "load_watchlist example_env (u ''watchlist.txt'') [] =
     (Inr [u ''example.com'', u ''test.io''], [])"
    using load_watchlist_filters
      [where env = example_env and path = "u ''watchlist.txt''" and tr = "[]"
         and lines = "[u ''example.com'', [], u ''# comment'', u ''  TEST.IO  '']"]
      h1 s1
    by simp
  have 2: "load_watchlist accented_env (u ''watchlist.txt'') [] =
     (Inr [[0xE9] @ u ''xample.com''], [])"
    using load_watchlist_filters
      [where env = accented_env and path = "u ''watchlist.txt''" and tr = "[]"
         and lines = "[[0x3000] @ u ''# note\<newline>'', [0xC9] @ u ''XAMPLE.COM\<newline>'']"]
      h2 s2
    by simp
  from 1 2 show ?thesis by blast
qed

text \<open>
  C10: for a domain name with no dot, \<open>get_whois_server\<close> takes the whole lowercased
  name as the suffix: the table's host when it is one of the ten suffixes, \<open>whois.nic.\<close>
  followed by the lowercased name otherwise; the empty name gives \<open>whois.nic.\<close> and no
  error. This holds whatever the character database of the interpreter is.
\<close>

theorem get_whois_server_no_dot:
  "(ch CHR ''.'' \<notin> set d \<longrightarrow>
      get_whois_server db d = Inr (resolver_spec (str_lower db d))) \<and>
   get_whois_server db [] = Inr (u ''whois.nic.'')"
proof -
  have "resolver_spec [] = u ''whois.nic.''"
    by (simp add: resolver_spec_def)
  then have "get_whois_server db [] = Inr (u ''whois.nic.'')"
    by (simp add: get_whois_server_eq suffix_after_last_dot_def str_lower_empty)
  then show ?thesis
    by (simp add: get_whois_server_eq suffix_after_last_dot_no_dot)
qed

theorem get_whois_server_no_dot_witness:
  "get_whois_server sample_unicode (u ''LocalHost'') = Inr (u ''whois.nic.localhost'') \<and>
   get_whois_server sample_unicode (u ''COM'') = Inr (u ''whois.verisign-grs.com'') \<and>
   get_whois_server sample_unicode [0x420, 0x424] = Inr (u ''whois.nic.'' @ [0x440, 0x444])"
proof -
  have h: "ch CHR ''.'' \<notin> set (u ''LocalHost'')" "ch CHR ''.'' \<notin> set (u ''COM'')"
          "ch CHR ''.'' \<notin> set [0x420, 0x424]"
    by code_simp+
  have r: "resolver_spec (str_lower sample_unicode (u ''LocalHost'')) = u ''whois.nic.localhost''"
          "resolver_spec (str_lower sample_unicode (u ''COM'')) = u ''whois.verisign-grs.com''"
          "resolver_spec (str_lower sample_unicode [0x420, 0x424]) = u ''whois.nic.'' @ [0x440, 0x444]"
    by code_simp+
  show ?thesis
    using get_whois_server_no_dot [of "u ''LocalHost''" sample_unicode]
      get_whois_server_no_dot [of "u ''COM''" sample_unicode]
      get_whois_server_no_dot [of "[0x420, 0x424]" sample_unicode] h r
    by simp
qed

text \<open>
  C4, as stated, fails: a watchlist file that exists and may not be read ends the run
  with a non-zero status too, so the missing file is not the only fatal condition.
\<close>

theorem fatal_without_missing_file:
  "open_read unreadable_env (WATCHLIST_FILE unreadable_env) =
     Inl (Exc OtherException (u ''[Errno 13] Permission denied: watchlist.txt'')) \<and>
   exc_cls (Exc OtherException (u ''[Errno 13] Permission denied: watchlist.txt'')) \<noteq> FileNotFoundError \<and>
   exit_status (fst (main unreadable_env)) = 1"
  by code_simp

text \<open>
  C4, amended: if the watchlist file does not exist, the program prints an error and
  ends with exit status 1 before any lookup, any mail and any file output; this is the
  only condition on which the script itself ends the run (\<open>sys.exit\<close>). Another
  exception raised while opening or reading the watchlist is not caught and ends the
  run with a non-zero status as well, before any lookup.
\<close>

theorem missing_watchlist_is_fatal:
  "(open_read env (WATCHLIST_FILE env) = Inl e \<and> exc_cls e = FileNotFoundError \<longrightarrow>
      fst (main env) = Inl (SystemExit 1) \<and> exit_status (fst (main env)) \<noteq> 0 \<and>
      last (printed (snd (main env))) = NO_WATCHLIST_FILE @ WATCHLIST_FILE env @ u ''\<newline>'' \<and>
      lookups (snd (main env)) = [] \<and> mails (snd (main env)) = [] \<and>
      writes (snd (main env)) = [] \<and> appends (snd (main env)) = []) \<and>
   (open_read env (WATCHLIST_FILE env) = Inl e \<and> exc_cls e \<noteq> FileNotFoundError \<longrightarrow>
      fst (main env) = Inl (Uncaught e) \<and> exit_status (fst (main env)) \<noteq> 0 \<and>
      lookups (snd (main env)) = []) \<and>
   (fst (main env) = Inl (SystemExit n) \<longrightarrow>
      (\<exists>e'. open_read env (WATCHLIST_FILE env) = Inl e' \<and> exc_cls e' = FileNotFoundError))"
proof -
  have a: "open_read env (WATCHLIST_FILE env) = Inl e \<and> exc_cls e = FileNotFoundError \<longrightarrow>
      fst (main env) = Inl (SystemExit 1) \<and> exit_status (fst (main env)) \<noteq> 0 \<and>
      last (printed (snd (main env))) = NO_WATCHLIST_FILE @ WATCHLIST_FILE env @ u ''\<newline>'' \<and>
      lookups (snd (main env)) = [] \<and> mails (snd (main env)) = [] \<and>
      writes (snd (main env)) = [] \<and> appends (snd (main env)) = []"
    by (simp add: main_not_opened)
  have b: "open_read env (WATCHLIST_FILE env) = Inl e \<and> exc_cls e \<noteq> FileNotFoundError \<longrightarrow>
      fst (main env) = Inl (Uncaught e) \<and> exit_status (fst (main env)) \<noteq> 0 \<and>
      lookups (snd (main env)) = []"
    by (simp add: main_not_opened)
  have c: "fst (main env) = Inl (SystemExit n) \<longrightarrow>
      (\<exists>e'. open_read env (WATCHLIST_FILE env) = Inl e' \<and> exc_cls e' = FileNotFoundError)"
  proof (cases "open_read env (WATCHLIST_FILE env)")
    case (Inl e')
    then show ?thesis by (simp add: main_not_opened)
  next
    case (Inr lines)
    then show ?thesis using main_obs [OF Inr] by simp
  qed
  from a b c show ?thesis by blast
qed

theorem missing_watchlist_is_fatal_witness:
  "fst (main missing_env) = Inl (SystemExit 1) \<and> lookups (snd (main missing_env)) = [] \<and>
   last (printed (snd (main missing_env))) = NO_WATCHLIST_FILE @ u ''watchlist.txt\<newline>'' \<and>
   fst (main unreadable_env) =
     Inl (Uncaught (Exc OtherException (u ''[Errno 13] Permission denied: watchlist.txt'')))"
proof -
  have h1: "open_read missing_env (WATCHLIST_FILE missing_env) =
              Inl (Exc FileNotFoundError (u ''[Errno 2] No such file or directory: watchlist.txt''))"
    by (simp add: missing_env_def)
  have h2: "open_read unreadable_env (WATCHLIST_FILE unreadable_env) =
              Inl (Exc OtherException (u ''[Errno 13] Permission denied: watchlist.txt''))"
    by (simp add: unreadable_env_def)
  have w: "WATCHLIST_FILE missing_env = u ''watchlist.txt''"
    by (simp add: missing_env_def demo_env_def)
  show ?thesis
    using missing_watchlist_is_fatal
        [of missing_env "Exc FileNotFoundError (u ''[Errno 2] No such file or directory: watchlist.txt'')" 1]
      missing_watchlist_is_fatal
        [of unreadable_env "Exc OtherException (u ''[Errno 13] Permission denied: watchlist.txt'')" 1]
      h1 h2 w
    by (simp add: u_join)
qed

text \<open>
  C5, as stated, fails: with available domains and complete credentials, a mail relay
  that refuses the connection leaves the run with no mail sent.
\<close>

theorem no_mail_when_relay_refuses:
  "open_read refused_env (WATCHLIST_FILE refused_env) =
     Inr [u ''foo.xyz\<newline>'', u ''Taken.org\<newline>'', u ''bar.com''] \<and>
   available_in refused_env [u ''foo.xyz\<newline>'', u ''Taken.org\<newline>'', u ''bar.com''] =
     [u ''foo.xyz'', u ''bar.com''] \<and>
   all_credentials refused_env \<and>
   mails (snd (main refused_env)) = []"
  by code_simp

text \<open>
  C5, amended: when at least one domain is classified available and all mail credentials
  are present, at most one mail is sent, and exactly one when every step of the SMTP
  session succeeds: its subject states the number of available domains and its HTML body
  holds a list item for every available domain. Whether or not the mail goes out,
  \<open>available_domains.txt\<close> is written once, with the time stamp comment as its first line
  and then one available domain per line in the order they were found.
\<close>

theorem main_notifies_and_writes:
  assumes "open_read env (WATCHLIST_FILE env) = Inr lines"
    and "available_in env lines \<noteq> []"
    and "all_credentials env"
  shows "(smtp_session env (build_message env (available_in env lines)) = None \<longrightarrow>
            (\<exists>m. mails (snd (main env)) = [m] \<and>
                 mail_subject m =
                   SUBJECT_HEAD @ str_nat (length (available_in env lines)) @ SUBJECT_TAIL \<and>
                 mail_to m = NOTIFY_EMAIL env \<and>
                 (\<forall>d\<in>set (available_in env lines).
                    sublist (LI_OPEN @ d @ LI_CLOSE) (mail_body m)))) \<and>
         length (mails (snd (main env))) \<le> 1 \<and>
         writes (snd (main env)) =
           [(u ''available_domains.txt'',
             FILE_HEADER @ now_file env @ u ''\<newline>'' @
             concat (map (\<lambda>d. d @ u ''\<newline>'') (available_in env lines)))]"
proof -
  note o = main_obs [OF assms(1)]
  have w: "writes (snd (main env)) =
           [(u ''available_domains.txt'',
             FILE_HEADER @ now_file env @ u ''\<newline>'' @
             concat (map (\<lambda>d. d @ u ''\<newline>'') (available_in env lines)))]"
    using o assms(2) by (simp add: result_file_text_def)
  have l: "length (mails (snd (main env))) \<le> 1"
    using o by simp
  have m: "smtp_session env (build_message env (available_in env lines)) = None \<longrightarrow>
            (\<exists>m. mails (snd (main env)) = [m] \<and>
                 mail_subject m =
                   SUBJECT_HEAD @ str_nat (length (available_in env lines)) @ SUBJECT_TAIL \<and>
                 mail_to m = NOTIFY_EMAIL env \<and>
                 (\<forall>d\<in>set (available_in env lines).
                    sublist (LI_OPEN @ d @ LI_CLOSE) (mail_body m)))"
  proof
    assume s: "smtp_session env (build_message env (available_in env lines)) = None"
    have "mails (snd (main env)) = [build_message env (available_in env lines)]"
      using o assms(2,3) s by simp
    moreover have "mail_subject (build_message env (available_in env lines)) =
        SUBJECT_HEAD @ str_nat (length (available_in env lines)) @ SUBJECT_TAIL"
      by (simp add: build_message_def)
    moreover have "mail_to (build_message env (available_in env lines)) = NOTIFY_EMAIL env"
      by (simp add: build_message_def)
    moreover have "\<forall>d\<in>set (available_in env lines).
        sublist (LI_OPEN @ d @ LI_CLOSE) (mail_body (build_message env (available_in env lines)))"
      using body_lists_domain by blast
    ultimately show "\<exists>m. mails (snd (main env)) = [m] \<and>
                 mail_subject m =
                   SUBJECT_HEAD @ str_nat (length (available_in env lines)) @ SUBJECT_TAIL \<and>
                 mail_to m = NOTIFY_EMAIL env \<and>
                 (\<forall>d\<in>set (available_in env lines).
                    sublist (LI_OPEN @ d @ LI_CLOSE) (mail_body m))"
      by blast
  qed
  from m l w show ?thesis by blast
qed

theorem main_notifies_and_writes_witness:
  "(\<exists>m. mails (snd (main demo_env)) = [m] \<and>
        mail_subject m = SUBJECT_HEAD @ u ''2'' @ SUBJECT_TAIL \<and>
        sublist (LI_OPEN @ u ''foo.xyz'' @ LI_CLOSE) (mail_body m) \<and>
        sublist (LI_OPEN @ u ''bar.com'' @ LI_CLOSE) (mail_body m)) \<and>
   writes (snd (main demo_env)) =
     [(u ''available_domains.txt'',
       FILE_HEADER @ u ''2024-01-01 00:00:06\<newline>foo.xyz\<newline>bar.com\<newline>'')]"
proof -
  have h1: "open_read demo_env (WATCHLIST_FILE demo_env) =
              Inr [u ''foo.xyz\<newline>'', u ''Taken.org\<newline>'', u ''bar.com'']"
    by (simp add: demo_env_def)
  have a: "available_in demo_env [u ''foo.xyz\<newline>'', u ''Taken.org\<newline>'', u ''bar.com''] =
             [u ''foo.xyz'', u ''bar.com'']"
    by code_simp
  have h3: "all_credentials demo_env"
    by (simp add: all_credentials_def demo_env_def)
  have s: "smtp_session demo_env (build_message demo_env [u ''foo.xyz'', u ''bar.com'']) = None"
    by (simp add: smtp_session_def demo_env_def)
  have n: "str_nat (Suc (Suc 0)) = u ''2''" by code_simp
  have f: "now_file demo_env = u ''2024-01-01 00:00:06''"
    by (simp add: demo_env_def)
  show ?thesis
    using main_notifies_and_writes
      [of demo_env "[u ''foo.xyz\<newline>'', u ''Taken.org\<newline>'', u ''bar.com'']"] h1 h3 s
    unfolding a
    by (simp add: n f u_join) blast
qed

text \<open>
  C6: when no domain of a non-empty watchlist is classified available, no mail is sent
  and \<open>available_domains.txt\<close> is not written; when \<open>GITHUB_OUTPUT\<close> names a path, the
  only text appended to it is the line \<open>available=false\<close>, and when it is unset or empty
  nothing is appended.
\<close>

theorem main_nothing_available:
  assumes "open_read env (WATCHLIST_FILE env) = Inr lines"
    and "watchlist_loop (unicode env) lines [] \<noteq> []"
    and "available_in env lines = []"
  shows "mails (snd (main env)) = [] \<and> writes (snd (main env)) = [] \<and>
         (\<forall>p. GITHUB_OUTPUT env = Some p \<and> p \<noteq> [] \<longrightarrow>
            appends (snd (main env)) = [(p, u ''available=false\<newline>'')]) \<and>
         (GITHUB_OUTPUT env = None \<or> GITHUB_OUTPUT env = Some [] \<longrightarrow>
            appends (snd (main env)) = [])"
  using main_obs [OF assms(1)] assms(2,3)
  by (auto simp: output_path_def)

theorem main_nothing_available_witness:
  "mails (snd (main registered_env)) = [] \<and> writes (snd (main registered_env)) = [] \<and>
   appends (snd (main registered_env)) = [(u ''/tmp/github_output'', u ''available=false\<newline>'')] \<and>
   appends (snd (main (registered_env\<lparr>GITHUB_OUTPUT := None\<rparr>))) = []"
proof -
  let ?ls = "[u ''foo.xyz\<newline>'', u ''Taken.org\<newline>'', u ''bar.com'']"
  let ?e = "registered_env\<lparr>GITHUB_OUTPUT := None\<rparr>"
  have h1: "open_read registered_env (WATCHLIST_FILE registered_env) = Inr ?ls"
           "open_read ?e (WATCHLIST_FILE ?e) = Inr ?ls"
    by (simp_all add: registered_env_def demo_env_def)
  have h2: "watchlist_loop (unicode registered_env) ?ls [] \<noteq> []"
           "watchlist_loop (unicode ?e) ?ls [] \<noteq> []"
    by code_simp+
  have h3: "available_in registered_env ?ls = []" "available_in ?e ?ls = []" by code_simp+
  have g: "GITHUB_OUTPUT registered_env = Some (u ''/tmp/github_output'')" "GITHUB_OUTPUT ?e = None"
    by (simp_all add: registered_env_def demo_env_def)
  show ?thesis
    using main_nothing_available [OF h1(1) h2(1) h3(1)]
      main_nothing_available [OF h1(2) h2(2) h3(2)] g
    by simp
qed



text \<open>
  C8: when the lookup process exceeds its timeout of 30, \<open>check_domain_whois\<close> returns
  not available with the timeout message, which differs from the three classification
  messages and from every error message; when the call fails in another way it returns
  not available with the error prefix followed by the text of the exception. It always
  returns, and it calls the lookup exactly once. A run whose watchlist can be read
  returns, and its lookups are one per watchlist entry, in order, whatever their outcomes.
\<close>

theorem lookup_failure_is_not_fatal:
  "(subprocess_run env (whois_argv (resolved_host (unicode env) d) d) 30 = Inl e \<and>
    exc_cls e = TimeoutExpired \<longrightarrow>
      fst (check_domain_whois env d tr) = Inr (False, MSG_TIMEOUT)) \<and>
   (subprocess_run env (whois_argv (resolved_host (unicode env) d) d) 30 = Inl e \<and>
    exc_cls e \<noteq> TimeoutExpired \<longrightarrow>
      fst (check_domain_whois env d tr) = Inr (False, MSG_ERROR @ exc_str e)) \<and>
   MSG_TIMEOUT \<noteq> MSG_AVAILABLE \<and> MSG_TIMEOUT \<noteq> MSG_REGISTERED \<and> MSG_TIMEOUT \<noteq> MSG_UNKNOWN \<and>
   \<not> prefix MSG_ERROR MSG_TIMEOUT \<and>
   (\<exists>r. fst (check_domain_whois env d tr) = Inr r) \<and>
   lookups (snd (check_domain_whois env d tr)) = lookups tr @ [lookup_of (unicode env) d] \<and>
   (open_read env (WATCHLIST_FILE env) = Inr lines \<longrightarrow>
      fst (main env) = Inr () \<and>
      lookups (snd (main env)) = map (lookup_of (unicode env)) (watchlist_loop (unicode env) lines []))"
proof -
  have a: "subprocess_run env (whois_argv (resolved_host (unicode env) d) d) 30 = Inl e \<and>
    exc_cls e = TimeoutExpired \<longrightarrow>
      fst (check_domain_whois env d tr) = Inr (False, MSG_TIMEOUT)"
    by (simp add: check_domain_whois_eq)
  have b: "subprocess_run env (whois_argv (resolved_host (unicode env) d) d) 30 = Inl e \<and>
    exc_cls e \<noteq> TimeoutExpired \<longrightarrow>
      fst (check_domain_whois env d tr) = Inr (False, MSG_ERROR @ exc_str e)"
    by (simp add: check_domain_whois_eq)
  have c: "\<exists>r. fst (check_domain_whois env d tr) = Inr r"
    using check_domain_whois_returns [of env d tr] by auto
  have l: "lookups (snd (check_domain_whois env d tr)) = lookups tr @ [lookup_of (unicode env) d]"
    by (simp add: check_domain_whois_eq lookup_of_def)
  have m: "open_read env (WATCHLIST_FILE env) = Inr lines \<longrightarrow>
      fst (main env) = Inr () \<and>
      lookups (snd (main env)) = map (lookup_of (unicode env)) (watchlist_loop (unicode env) lines [])"
    using main_obs [of env lines] by simp
  from a b c l m distinct_messages show ?thesis by blast
qed

theorem lookup_failure_is_not_fatal_witness:
  "fst (check_domain_whois flaky_env (u ''foo.xyz'') []) = Inr (False, MSG_TIMEOUT) \<and>
   fst (check_domain_whois flaky_env (u ''taken.org'') []) =
     Inr (False, MSG_ERROR @ u ''[Errno 12] Cannot allocate memory'') \<and>
   fst (main flaky_env) = Inr () \<and>
   lookups (snd (main flaky_env)) =
     [([u ''whois'', u ''-h'', u ''whois.nic.xyz'', u ''foo.xyz''], 30),
      ([u ''whois'', u ''-h'', u ''whois.pir.org'', u ''taken.org''], 30),
      ([u ''whois'', u ''-h'', u ''whois.verisign-grs.com'', u ''bar.com''], 30)]"
proof -
  let ?ls = "[u ''foo.xyz\<newline>'', u ''Taken.org\<newline>'', u ''bar.com'']"
  let ?t = "Exc TimeoutExpired (u ''Command timed out after 30 seconds'')"
  let ?m = "Exc OtherException (u ''[Errno 12] Cannot allocate memory'')"
  have h1: "subprocess_run flaky_env (whois_argv (resolved_host (unicode flaky_env) (u ''foo.xyz'')) (u ''foo.xyz'')) 30 = Inl ?t"
    by code_simp
  have h2: "subprocess_run flaky_env (whois_argv (resolved_host (unicode flaky_env) (u ''taken.org'')) (u ''taken.org'')) 30 = Inl ?m"
    by code_simp
  have o: "open_read flaky_env (WATCHLIST_FILE flaky_env) = Inr ?ls"
    by (simp add: flaky_env_def demo_env_def)
  have w: "map (lookup_of (unicode flaky_env)) (watchlist_loop (unicode flaky_env) ?ls []) =
     [([u ''whois'', u ''-h'', u ''whois.nic.xyz'', u ''foo.xyz''], 30),
      ([u ''whois'', u ''-h'', u ''whois.pir.org'', u ''taken.org''], 30),
      ([u ''whois'', u ''-h'', u ''whois.verisign-grs.com'', u ''bar.com''], 30)]"
    by code_simp
  have 1: "fst (check_domain_whois flaky_env (u ''foo.xyz'') []) = Inr (False, MSG_TIMEOUT)"
    using lookup_failure_is_not_fatal [of flaky_env "u ''foo.xyz''" ?t "[]"] h1 by simp
  have 2: "fst (check_domain_whois flaky_env (u ''taken.org'') []) =
     Inr (False, MSG_ERROR @ u ''[Errno 12] Cannot allocate memory'')"
    using lookup_failure_is_not_fatal [of flaky_env "u ''taken.org''" ?m "[]"] h2 by simp
  have 3: "fst (main flaky_env) = Inr () \<and>
      lookups (snd (main flaky_env)) = map (lookup_of (unicode flaky_env)) (watchlist_loop (unicode flaky_env) ?ls [])"
    using lookup_failure_is_not_fatal [of flaky_env _ _ _ ?ls] o by blast
  from 1 2 3 show ?thesis unfolding w by blast
qed




end
